theory Spec2Isabelle
  imports Complex_Main
begin

section \<open>Values of a decoded request body\<close>

text \<open>
  The controller decodes every POST body with \<^verbatim>\<open>json.loads\<close> and then works on the
  decoded Python value. A decoded value is \<^verbatim>\<open>None\<close>, a \<^verbatim>\<open>bool\<close>, an \<^verbatim>\<open>int\<close>,
  a \<^verbatim>\<open>float\<close>, a \<^verbatim>\<open>str\<close>, a \<^verbatim>\<open>list\<close> or a \<^verbatim>\<open>dict\<close> with string keys.
  A str is the list of its characters. A dict is kept as the list of its items, in
  order; lookups go through \<open>map_of\<close>.
  A float is a finite rational, negative zero, an infinity (\<open>True\<close> for the positive
  one) or a NaN.
\<close>

datatype pyfloat = Finite rat | NegZero | Infinite bool | NaN

datatype json =
    JNull
  | JBool bool
  | JInt int
  | JFloat pyfloat
  | JStr string
  | JArr "json list"
  | JObj "(string \<times> json) list"

text \<open>
  An exception caught by a handler's \<^verbatim>\<open>except Exception as e\<close> is represented by the
  text \<^verbatim>\<open>str(e)\<close>, the only part of it the handlers use.
\<close>

datatype fault = Fault string

fun type_name :: "json \<Rightarrow> string" where
  "type_name JNull = ''NoneType''"
| "type_name (JBool b) = ''bool''"
| "type_name (JInt i) = ''int''"
| "type_name (JFloat f) = ''float''"
| "type_name (JStr s) = ''str''"
| "type_name (JArr xs) = ''list''"
| "type_name (JObj kvs) = ''dict''"

definition quoted :: "string \<Rightarrow> string" where
  "quoted s = CHR 0x27 # s @ [CHR 0x27]"

text \<open>Truth value of a decoded value, as \<^verbatim>\<open>not config_version\<close> tests it.\<close>

fun truthy :: "json \<Rightarrow> bool" where
  "truthy JNull = False"
| "truthy (JBool b) = b"
| "truthy (JInt i) = (i \<noteq> 0)"
| "truthy (JFloat f) = (f \<noteq> Finite 0 \<and> f \<noteq> NegZero)"
| "truthy (JStr s) = (s \<noteq> [])"
| "truthy (JArr xs) = (xs \<noteq> [])"
| "truthy (JObj kvs) = (kvs \<noteq> [])"

text \<open>
  \<^verbatim>\<open>len(v)\<close>: the number of characters, elements or keys; a \<^verbatim>\<open>TypeError\<close> for a
  value that has no length.
\<close>

fun len :: "json \<Rightarrow> fault + nat" where
  "len (JStr s) = Inr (length s)"
| "len (JArr xs) = Inr (length xs)"
| "len (JObj kvs) = Inr (length (remdups (map fst kvs)))"
| "len v = Inl (Fault (''object of type '' @ quoted (type_name v) @ '' has no len()''))"

text \<open>
  \<^verbatim>\<open>v.get(key, default)\<close>: the dict lookup with a default; an \<^verbatim>\<open>AttributeError\<close>
  when \<open>v\<close> is not a dict.
\<close>

definition dict_get :: "(string \<times> json) list \<Rightarrow> string \<Rightarrow> json \<Rightarrow> json" where
  "dict_get kvs key dflt = (case map_of kvs key of None \<Rightarrow> dflt | Some v \<Rightarrow> v)"

fun get :: "json \<Rightarrow> string \<Rightarrow> json \<Rightarrow> fault + json" where
  "get (JObj kvs) key dflt = Inr (dict_get kvs key dflt)"
| "get v key dflt =
     Inl (Fault (quoted (type_name v) @ '' object has no attribute '' @ quoted ''get''))"

text \<open>
  An f-string field \<^verbatim>\<open>{v}\<close> inserts a \<^verbatim>\<open>str\<close> unchanged and the interpreter's
  \<^verbatim>\<open>str(v)\<close> for any other value. The interpreter's rendering of non-string values
  is not part of the controller and is taken as the parameter \<open>builtin_str\<close>.
\<close>

definition fmt :: "(json \<Rightarrow> string) \<Rightarrow> json \<Rightarrow> string" where
  "fmt builtin_str v = (case v of JStr s \<Rightarrow> s | _ \<Rightarrow> builtin_str v)"

section \<open>Randomness\<close>

text \<open>
  The controller draws from the process-wide generator of the \<^verbatim>\<open>random\<close> module.
  Each draw is an input of the model. \<^verbatim>\<open>random.random()\<close> returns a double, whose
  value is a rational \<open>u\<close>; the literals \<^verbatim>\<open>0.9\<close> and \<^verbatim>\<open>0.95\<close> are the doubles
  nearest to them, and doubles compare by value.
  \<^verbatim>\<open>random.choice(seq)\<close> is \<^verbatim>\<open>seq[k]\<close> and \<^verbatim>\<open>random.randint(a, b)\<close> is \<^verbatim>\<open>a + k\<close>,
  where \<open>k\<close> is the generator's draw below \<^verbatim>\<open>len(seq)\<close>, respectively below
  \<^verbatim>\<open>b - a + 1\<close>.
\<close>

definition lit_0_9 :: rat where
  "lit_0_9 = 8106479329266893 / 9007199254740992"

definition lit_0_95 :: rat where
  "lit_0_95 = 8556839292003942 / 9007199254740992"

definition choice :: "'a list \<Rightarrow> nat \<Rightarrow> fault + 'a" where
  "choice seq k = (if k < length seq then Inr (seq ! k) else Inl (Fault ''list index out of range''))"

definition randint :: "int \<Rightarrow> int \<Rightarrow> nat \<Rightarrow> int" where
  "randint a b k = a + int k"

record status_draws =
  phase_draw :: nat
  step_draw :: nat
  devices_draw :: nat

definition valid_draws :: "status_draws \<Rightarrow> bool" where
  "valid_draws d \<longleftrightarrow> phase_draw d < 3 \<and> step_draw d < 3 \<and> devices_draw d < 10"

record metric_draws =
  cpu_usage :: pyfloat
  memory_usage :: pyfloat
  response_time :: pyfloat
  error_rate :: pyfloat
  throughput :: pyfloat
  active_rollouts :: nat
  devices_configured :: nat

section \<open>Responses\<close>

text \<open>
  What a handler sends: the status line's code, the headers it adds with
  \<^verbatim>\<open>send_header\<close>, and the value it serialises into the body (\<open>None\<close> when it writes
  nothing).
\<close>

record response =
  status_code :: nat
  sent_headers :: "(string \<times> string) list"
  body :: "json option"

definition json_header :: "string \<times> string" where
  "json_header = (''Content-type'', ''application/json'')"

definition not_found :: response where
  "not_found = \<lparr>status_code = 404, sent_headers = [], body = None\<rparr>"

definition error_response :: "fault \<Rightarrow> response" where
  "error_response e = (case e of Fault m \<Rightarrow>
     \<lparr>status_code = 500, sent_headers = [json_header],
      body = Some (JObj [(''status'', JStr ''error''), (''message'', JStr m)])\<rparr>)"

text \<open>The \<^verbatim>\<open>try\<close> ... \<^verbatim>\<open>except Exception\<close> frame shared by the three POST handlers.\<close>

definition try_except :: "fault + response \<Rightarrow> response" where
  "try_except r = (case r of Inl e \<Rightarrow> error_response e | Inr resp \<Rightarrow> resp)"

section \<open>The controller\<close>

text \<open>
  The methods of \<^verbatim>\<open>ConfigController\<close>, in the order of the source. The pauses
  (\<^verbatim>\<open>time.sleep\<close>) and the log lines change no response and are left out, except
  that an expression evaluated for a log line can raise, which is kept.
\<close>

subsection \<open>Validation\<close>

definition validate_config :: "rat \<Rightarrow> json \<Rightarrow> fault + bool" where
  "validate_config u data =
     (case get data ''configVersion'' (JStr []) of
        Inl e \<Rightarrow> Inl e
      | Inr config_version \<Rightarrow>
          if \<not> truthy config_version then Inr False
          else (case len config_version of
                  Inl e \<Rightarrow> Inl e
                | Inr n \<Rightarrow> if n < 3 then Inr False else Inr (u < lit_0_9)))"

text \<open>
  The handler receives the outcome of reading and decoding the body (lines 64 to 66):
  the fault raised there, or the decoded value. The first \<open>get\<close> is the one inside the
  log line, which already fails on a body that is not a dict.
\<close>

definition handle_validation :: "rat \<Rightarrow> fault + json \<Rightarrow> response" where
  "handle_validation u parsed = try_except
     (case parsed of
        Inl e \<Rightarrow> Inl e
      | Inr data \<Rightarrow>
          (case get data ''configVersion'' (JStr ''unknown'') of
             Inl e \<Rightarrow> Inl e
           | Inr logged \<Rightarrow>
               (case validate_config u data of
                  Inl e \<Rightarrow> Inl e
                | Inr success \<Rightarrow>
                    (case get data ''configVersion'' (JStr ''unknown'') of
                       Inl e \<Rightarrow> Inl e
                     | Inr cv \<Rightarrow>
                         if success then
                           Inr \<lparr>status_code = 200, sent_headers = [json_header],
                                body = Some (JObj [(''status'', JStr ''success''),
                                  (''message'', JStr ''Configuration validation passed''),
                                  (''configVersion'', cv)])\<rparr>
                         else
                           Inr \<lparr>status_code = 400, sent_headers = [json_header],
                                body = Some (JObj [(''status'', JStr ''failure''),
                                  (''message'', JStr ''Configuration validation failed''),
                                  (''configVersion'', cv)])\<rparr>))))"

subsection \<open>Dispatch to a device\<close>

definition send_config_to_device :: "rat \<Rightarrow> json \<Rightarrow> json \<Rightarrow> bool" where
  "send_config_to_device u device_id config_data = (u < lit_0_95)"

definition handle_send_config :: "(json \<Rightarrow> string) \<Rightarrow> rat \<Rightarrow> fault + json \<Rightarrow> response" where
  "handle_send_config builtin_str u parsed = try_except
     (case parsed of
        Inl e \<Rightarrow> Inl e
      | Inr data \<Rightarrow>
          (case get data ''deviceId'' (JStr ''unknown'') of
             Inl e \<Rightarrow> Inl e
           | Inr device_id \<Rightarrow>
               (case get data ''config'' (JObj []) of
                  Inl e \<Rightarrow> Inl e
                | Inr config_data \<Rightarrow>
                    (case get config_data ''name'' (JStr ''unknown'') of
                       Inl e \<Rightarrow> Inl e
                     | Inr logged \<Rightarrow>
                         if send_config_to_device u device_id config_data then
                           (case get config_data ''name'' (JStr ''unknown'') of
                              Inl e \<Rightarrow> Inl e
                            | Inr config_name \<Rightarrow>
                                Inr \<lparr>status_code = 200, sent_headers = [json_header],
                                     body = Some (JObj [(''status'', JStr ''success''),
                                       (''message'', JStr (''Configuration sent to device ''
                                           @ fmt builtin_str device_id)),
                                       (''deviceId'', device_id),
                                       (''configName'', config_name)])\<rparr>)
                         else
                           Inr \<lparr>status_code = 500, sent_headers = [json_header],
                                body = Some (JObj [(''status'', JStr ''failure''),
                                  (''message'', JStr (''Failed to send config to device ''
                                      @ fmt builtin_str device_id)),
                                  (''deviceId'', device_id)])\<rparr>))))"

subsection \<open>Rollout status\<close>

definition get_rollout_status :: "(json \<Rightarrow> string) \<Rightarrow> status_draws \<Rightarrow> json \<Rightarrow> fault + json" where
  "get_rollout_status builtin_str d rollout_id =
     (case choice [''Progressing'', ''Completed'', ''Paused''] (phase_draw d) of
        Inl e \<Rightarrow> Inl e
      | Inr phase \<Rightarrow>
          Inr (JObj [(''rolloutId'', rollout_id),
                     (''phase'', JStr phase),
                     (''currentStep'', JInt (randint 1 3 (step_draw d))),
                     (''totalSteps'', JInt 3),
                     (''completedDevices'', JInt (randint 1 10 (devices_draw d))),
                     (''totalDevices'', JInt 10),
                     (''message'', JStr (''Rollout '' @ fmt builtin_str rollout_id
                         @ '' is progressing''))]))"

definition handle_rollout_status ::
  "(json \<Rightarrow> string) \<Rightarrow> status_draws \<Rightarrow> fault + json \<Rightarrow> response" where
  "handle_rollout_status builtin_str d parsed = try_except
     (case parsed of
        Inl e \<Rightarrow> Inl e
      | Inr data \<Rightarrow>
          (case get data ''rolloutId'' (JStr ''unknown'') of
             Inl e \<Rightarrow> Inl e
           | Inr rollout_id \<Rightarrow>
               (case get_rollout_status builtin_str d rollout_id of
                  Inl e \<Rightarrow> Inl e
                | Inr status \<Rightarrow>
                    Inr \<lparr>status_code = 200, sent_headers = [json_header],
                         body = Some status\<rparr>)))"

subsection \<open>Routing\<close>

text \<open>
  The base class calls \<^verbatim>\<open>do_GET\<close> for a GET request and \<^verbatim>\<open>do_POST\<close> for a POST
  request. \<open>path\<close> is \<^verbatim>\<open>self.path\<close>, the request target as it was sent. The
  gauges of \<open>/metrics\<close> are the values returned by \<^verbatim>\<open>random.uniform\<close>.
\<close>

definition do_GET :: "metric_draws \<Rightarrow> string \<Rightarrow> response" where
  "do_GET m path =
     (if path = ''/health'' then
        \<lparr>status_code = 200, sent_headers = [json_header],
         body = Some (JObj [(''status'', JStr ''healthy''),
                            (''service'', JStr ''config-controller'')])\<rparr>
      else if path = ''/metrics'' then
        \<lparr>status_code = 200, sent_headers = [json_header],
         body = Some (JObj [(''cpu_usage'', JFloat (cpu_usage m)),
                            (''memory_usage'', JFloat (memory_usage m)),
                            (''response_time'', JFloat (response_time m)),
                            (''error_rate'', JFloat (error_rate m)),
                            (''throughput'', JFloat (throughput m)),
                            (''active_rollouts'', JInt (randint 1 10 (active_rollouts m))),
                            (''devices_configured'',
                               JInt (randint 50 200 (devices_configured m)))])\<rparr>
      else not_found)"

definition do_POST ::
  "(json \<Rightarrow> string) \<Rightarrow> rat \<Rightarrow> status_draws \<Rightarrow> string \<Rightarrow> fault + json \<Rightarrow> response" where
  "do_POST builtin_str u d path parsed =
     (if path = ''/validate'' then handle_validation u parsed
      else if path = ''/send-config'' then handle_send_config builtin_str u parsed
      else if path = ''/rollout-status'' then handle_rollout_status builtin_str d parsed
      else not_found)"

text \<open>
  The dispatch on the request method is inherited from the standard library's
  \<^verbatim>\<open>BaseHTTPRequestHandler.handle_one_request\<close>: it calls the method
  \<^verbatim>\<open>do_\<close> followed by the command when the handler class has one, and
  \<^verbatim>\<open>ConfigController\<close> has \<^verbatim>\<open>do_GET\<close> and \<^verbatim>\<open>do_POST\<close> only. For any other
  command it calls \<^verbatim>\<open>send_error(501, ...)\<close>, which sends the code with
  \<^verbatim>\<open>Content-Type: text/html\<close> and, unless the command is \<^verbatim>\<open>HEAD\<close>, an HTML page.
  \<open>Error_page c page\<close> is such an answer: the code, and whether the page is written.
\<close>

datatype served = Served response | Error_page nat bool

definition handle_one_request ::
  "string \<Rightarrow> metric_draws \<Rightarrow> (json \<Rightarrow> string) \<Rightarrow> rat \<Rightarrow> status_draws \<Rightarrow> string
     \<Rightarrow> fault + json \<Rightarrow> served" where
  "handle_one_request command m builtin_str u d path parsed =
     (if command = ''GET'' then Served (do_GET m path)
      else if command = ''POST'' then Served (do_POST builtin_str u d path parsed)
      else Error_page 501 (command \<noteq> ''HEAD''))"

section \<open>Reading a response\<close>

text \<open>The value stored under a key of the JSON object in a response body.\<close>

definition body_field :: "response \<Rightarrow> string \<Rightarrow> json option" where
  "body_field r key = (case body r of Some (JObj kvs) \<Rightarrow> map_of kvs key | _ \<Rightarrow> None)"

text \<open>
  The structural rule of the validator, read off the request: the payload has no
  \<^verbatim>\<open>configVersion\<close>, or an empty one, or one of fewer than three characters
  (elements, for a list or a dict).
\<close>

definition structurally_rejected :: "(string \<times> json) list \<Rightarrow> bool" where
  "structurally_rejected kvs =
     (case map_of kvs ''configVersion'' of
        None \<Rightarrow> True
      | Some v \<Rightarrow> \<not> truthy v \<or> (case len v of Inl e \<Rightarrow> False | Inr n \<Rightarrow> n < 3))"

text \<open>
  A request body of \<open>/send-config\<close> is well formed when it is a JSON object whose
  \<^verbatim>\<open>config\<close>, if it has one, is a JSON object too. \<^verbatim>\<open>deviceId\<close> and \<^verbatim>\<open>config\<close>
  may both be missing.
\<close>

definition well_formed_send_body :: "json \<Rightarrow> bool" where
  "well_formed_send_body data =
     (case data of
        JObj kvs \<Rightarrow> (case map_of kvs ''config'' of
                       None \<Rightarrow> True
                     | Some (JObj cfg) \<Rightarrow> True
                     | Some _ \<Rightarrow> False)
      | _ \<Rightarrow> False)"

text \<open>The outcome of a request: the response code and the \<^verbatim>\<open>status\<close> of the body.\<close>

definition outcome :: "response \<Rightarrow> nat \<times> json option" where
  "outcome r = (status_code r, body_field r ''status'')"

definition status_values :: "json option set" where
  "status_values = {Some (JStr ''success''), Some (JStr ''failure''), Some (JStr ''error'')}"

section \<open>Validation: the structural rule and the acceptance policy\<close>

lemma len_positive_truthy: "len v = Inr n \<Longrightarrow> 0 < n \<Longrightarrow> truthy v"
  by (cases v) auto

text \<open>
  C1. A payload (a JSON object) whose \<^verbatim>\<open>configVersion\<close> is absent, empty or shorter
  than three characters is rejected whatever the random draw \<open>u\<close> is:
  \<open>validate_config\<close> returns \<open>False\<close> and \<open>/validate\<close> answers 400 with status
  \<^verbatim>\<open>failure\<close>, the message \<^verbatim>\<open>Configuration validation failed\<close> and the payload's
  \<^verbatim>\<open>configVersion\<close> (the text \<^verbatim>\<open>unknown\<close> when the payload has none).
\<close>

theorem validate_rejects_short_version:
  assumes "structurally_rejected kvs"
  shows "validate_config u (JObj kvs) = Inr False \<and>
         handle_validation u (Inr (JObj kvs)) =
           \<lparr>status_code = 400, sent_headers = [(''Content-type'', ''application/json'')],
            body = Some (JObj [(''status'', JStr ''failure''),
                               (''message'', JStr ''Configuration validation failed''),
                               (''configVersion'',
                                  dict_get kvs ''configVersion'' (JStr ''unknown''))])\<rparr>"
proof -
  have v: "validate_config u (JObj kvs) = Inr False"
    using assms
    by (auto simp: structurally_rejected_def validate_config_def dict_get_def
             split: option.splits sum.splits)
  show ?thesis
    by (simp add: v handle_validation_def try_except_def json_header_def)
qed

theorem validate_rejects_short_version_witness:
  "structurally_rejected [(''configVersion'', JStr ''x'')] \<and>
   validate_config 0 (JObj [(''configVersion'', JStr ''x'')]) = Inr False \<and>
   handle_validation 0 (Inr (JObj [(''configVersion'', JStr ''x'')])) =
     \<lparr>status_code = 400, sent_headers = [(''Content-type'', ''application/json'')],
      body = Some (JObj [(''status'', JStr ''failure''),
                         (''message'', JStr ''Configuration validation failed''),
                         (''configVersion'', JStr ''x'')])\<rparr>"
proof -
  have h: "structurally_rejected [(''configVersion'', JStr ''x'')]"
    by (simp add: structurally_rejected_def)
  show ?thesis
    using h validate_rejects_short_version [OF h, of 0]
    by (simp add: dict_get_def)
qed

text \<open>
  C5. For a payload whose \<^verbatim>\<open>configVersion\<close> has length at least three, the verdict
  of \<open>validate_config\<close> is exactly the outcome of the acceptance draw
  \<^verbatim>\<open>random.random() < 0.9\<close>; \<open>/validate\<close> answers 200 with status \<^verbatim>\<open>success\<close> when
  the draw accepts and 400 with status \<^verbatim>\<open>failure\<close> when it does not.
\<close>

theorem validate_follows_policy:
  assumes "map_of kvs ''configVersion'' = Some cv" and "len cv = Inr n" and "3 \<le> n"
  shows "validate_config u (JObj kvs) = Inr (u < lit_0_9) \<and>
         handle_validation u (Inr (JObj kvs)) =
           (if u < lit_0_9 then
              \<lparr>status_code = 200, sent_headers = [(''Content-type'', ''application/json'')],
               body = Some (JObj [(''status'', JStr ''success''),
                                  (''message'', JStr ''Configuration validation passed''),
                                  (''configVersion'', cv)])\<rparr>
            else
              \<lparr>status_code = 400, sent_headers = [(''Content-type'', ''application/json'')],
               body = Some (JObj [(''status'', JStr ''failure''),
                                  (''message'', JStr ''Configuration validation failed''),
                                  (''configVersion'', cv)])\<rparr>)"
proof -
  have t: "truthy cv" using assms len_positive_truthy [of cv n] by simp
  have v: "validate_config u (JObj kvs) = Inr (u < lit_0_9)"
    using assms t by (simp add: validate_config_def dict_get_def)
  show ?thesis
    using assms(1)
    by (simp add: v handle_validation_def try_except_def json_header_def dict_get_def)
qed

theorem validate_follows_policy_witness:
  "map_of [(''configVersion'', JStr ''v1.2.3'')] ''configVersion'' = Some (JStr ''v1.2.3'') \<and>
   len (JStr ''v1.2.3'') = Inr 6 \<and> (3::nat) \<le> 6 \<and>
   validate_config 0 (JObj [(''configVersion'', JStr ''v1.2.3'')]) = Inr True \<and>
   validate_config 1 (JObj [(''configVersion'', JStr ''v1.2.3'')]) = Inr False \<and>
   status_code (handle_validation 0 (Inr (JObj [(''configVersion'', JStr ''v1.2.3'')]))) = 200 \<and>
   status_code (handle_validation 1 (Inr (JObj [(''configVersion'', JStr ''v1.2.3'')]))) = 400"
proof -
  have a: "map_of [(''configVersion'', JStr ''v1.2.3'')] ''configVersion'' = Some (JStr ''v1.2.3'')"
    by simp
  have b: "len (JStr ''v1.2.3'') = Inr 6" by simp
  have c: "(3::nat) \<le> 6" by simp
  show ?thesis
    using a b c validate_follows_policy [OF a b c, of 0] validate_follows_policy [OF a b c, of 1]
    by (simp add: lit_0_9_def)
qed

section \<open>Dispatch: the delivery draw decides\<close>

text \<open>
  C4. For a request whose \<^verbatim>\<open>config\<close> is an object (or missing), \<open>/send-config\<close>
  answers by the delivery draw \<^verbatim>\<open>random.random() < 0.95\<close> alone: 200 with status
  \<^verbatim>\<open>success\<close>, the device id and the config's name when it holds; 500 (never a
  client error) with status \<^verbatim>\<open>failure\<close>, the message
  \<^verbatim>\<open>Failed to send config to device {deviceId}\<close> and the device id when it does not.
\<close>

theorem send_config_follows_delivery:
  assumes "dict_get kvs ''config'' (JObj []) = JObj cfg"
  shows "handle_send_config builtin_str u (Inr (JObj kvs)) =
           (if u < lit_0_95 then
              \<lparr>status_code = 200, sent_headers = [(''Content-type'', ''application/json'')],
               body = Some (JObj [(''status'', JStr ''success''),
                 (''message'', JStr (''Configuration sent to device ''
                     @ fmt builtin_str (dict_get kvs ''deviceId'' (JStr ''unknown'')))),
                 (''deviceId'', dict_get kvs ''deviceId'' (JStr ''unknown'')),
                 (''configName'', dict_get cfg ''name'' (JStr ''unknown''))])\<rparr>
            else
              \<lparr>status_code = 500, sent_headers = [(''Content-type'', ''application/json'')],
               body = Some (JObj [(''status'', JStr ''failure''),
                 (''message'', JStr (''Failed to send config to device ''
                     @ fmt builtin_str (dict_get kvs ''deviceId'' (JStr ''unknown'')))),
                 (''deviceId'', dict_get kvs ''deviceId'' (JStr ''unknown''))])\<rparr>)"
  using assms
  by (simp add: handle_send_config_def try_except_def json_header_def send_config_to_device_def)

theorem send_config_follows_delivery_witness:
  "dict_get [(''deviceId'', JStr ''dev-42''), (''config'', JObj [(''name'', JStr ''net-profile-1'')])]
      ''config'' (JObj []) = JObj [(''name'', JStr ''net-profile-1'')] \<and>
   handle_send_config (\<lambda>v. []) 1
     (Inr (JObj [(''deviceId'', JStr ''dev-42''),
                 (''config'', JObj [(''name'', JStr ''net-profile-1'')])])) =
     \<lparr>status_code = 500, sent_headers = [(''Content-type'', ''application/json'')],
      body = Some (JObj [(''status'', JStr ''failure''),
                         (''message'', JStr ''Failed to send config to device dev-42''),
                         (''deviceId'', JStr ''dev-42'')])\<rparr> \<and>
   handle_send_config (\<lambda>v. []) 0
     (Inr (JObj [(''deviceId'', JStr ''dev-42''),
                 (''config'', JObj [(''name'', JStr ''net-profile-1'')])])) =
     \<lparr>status_code = 200, sent_headers = [(''Content-type'', ''application/json'')],
      body = Some (JObj [(''status'', JStr ''success''),
                         (''message'', JStr ''Configuration sent to device dev-42''),
                         (''deviceId'', JStr ''dev-42''),
                         (''configName'', JStr ''net-profile-1'')])\<rparr>"
proof -
  have h: "dict_get [(''deviceId'', JStr ''dev-42''),
                     (''config'', JObj [(''name'', JStr ''net-profile-1'')])]
             ''config'' (JObj []) = JObj [(''name'', JStr ''net-profile-1'')]"
    by (simp add: dict_get_def)
  show ?thesis
    using h send_config_follows_delivery [OF h, of "\<lambda>v. []" 1]
      send_config_follows_delivery [OF h, of "\<lambda>v. []" 0]
    by (simp add: dict_get_def fmt_def lit_0_95_def)
qed

lemma well_formed_config:
  assumes "well_formed_send_body (JObj kvs)"
  shows "\<exists>cfg. dict_get kvs ''config'' (JObj []) = JObj cfg"
  using assms
  by (auto simp: well_formed_send_body_def dict_get_def split: option.splits json.splits)

lemma send_outcome_well_formed:
  assumes "well_formed_send_body data"
  shows "outcome (handle_send_config builtin_str u (Inr data)) =
           (if u < lit_0_95 then (200, Some (JStr ''success''))
            else (500, Some (JStr ''failure'')))"
proof -
  obtain kvs where d: "data = JObj kvs"
    using assms by (cases data) (simp_all add: well_formed_send_body_def)
  obtain cfg where c: "dict_get kvs ''config'' (JObj []) = JObj cfg"
    using assms well_formed_config d by blast
  show ?thesis
    using c
    by (simp add: d handle_send_config_def try_except_def send_config_to_device_def
          outcome_def body_field_def)
qed

lemma send_status_code:
  "status_code (handle_send_config builtin_str u parsed) = 200 \<or>
   status_code (handle_send_config builtin_str u parsed) = 500"
  by (auto simp: handle_send_config_def try_except_def error_response_def
        split: sum.splits fault.splits)

text \<open>
  C10. The outcome of \<open>/send-config\<close> does not depend on the request: any two well-formed
  bodies, with or without \<^verbatim>\<open>deviceId\<close> and \<^verbatim>\<open>config\<close>, get the same response code
  and status from the same delivery draw. No request at all is answered with a client
  error: the code is 200 or 500.
\<close>

theorem send_outcome_independent_of_body:
  assumes "well_formed_send_body data1" and "well_formed_send_body data2"
  shows "outcome (handle_send_config builtin_str u (Inr data1)) =
           outcome (handle_send_config builtin_str u (Inr data2)) \<and>
         status_code (handle_send_config builtin_str u parsed) \<in> {200, 500}"
  using send_outcome_well_formed [OF assms(1)] send_outcome_well_formed [OF assms(2)]
    send_status_code [of builtin_str u parsed]
  by auto

theorem send_outcome_independent_of_body_witness:
  "well_formed_send_body (JObj []) \<and>
   well_formed_send_body
     (JObj [(''deviceId'', JStr ''dev-42''), (''config'', JObj [(''name'', JStr ''net-profile-1'')])]) \<and>
   outcome (handle_send_config (\<lambda>v. []) 1 (Inr (JObj []))) =
     outcome (handle_send_config (\<lambda>v. []) 1
       (Inr (JObj [(''deviceId'', JStr ''dev-42''),
                   (''config'', JObj [(''name'', JStr ''net-profile-1'')])]))) \<and>
   outcome (handle_send_config (\<lambda>v. []) 1 (Inr (JObj []))) = (500, Some (JStr ''failure''))"
proof -
  have a: "well_formed_send_body (JObj [])"
    by (simp add: well_formed_send_body_def)
  have b: "well_formed_send_body
     (JObj [(''deviceId'', JStr ''dev-42''), (''config'', JObj [(''name'', JStr ''net-profile-1'')])])"
    by (simp add: well_formed_send_body_def)
  have c: "outcome (handle_send_config (\<lambda>v. []) 1 (Inr (JObj []))) = (500, Some (JStr ''failure''))"
    by (simp add: handle_send_config_def try_except_def send_config_to_device_def
          outcome_def body_field_def dict_get_def lit_0_95_def)
  show ?thesis
    using a b c send_outcome_independent_of_body [OF a b, of "\<lambda>v. []" 1]
    by simp
qed

section \<open>Rollout status: a record drawn afresh at every call\<close>

lemma rollout_status_ok:
  assumes "phase_draw d < 3"
  shows "handle_rollout_status builtin_str d (Inr (JObj kvs)) =
     \<lparr>status_code = 200, sent_headers = [(''Content-type'', ''application/json'')],
      body = Some (JObj [(''rolloutId'', dict_get kvs ''rolloutId'' (JStr ''unknown'')),
        (''phase'', JStr ([''Progressing'', ''Completed'', ''Paused''] ! phase_draw d)),
        (''currentStep'', JInt (1 + int (step_draw d))),
        (''totalSteps'', JInt 3),
        (''completedDevices'', JInt (1 + int (devices_draw d))),
        (''totalDevices'', JInt 10),
        (''message'', JStr (''Rollout ''
            @ fmt builtin_str (dict_get kvs ''rolloutId'' (JStr ''unknown''))
            @ '' is progressing''))])\<rparr>"
  using assms
  by (simp add: handle_rollout_status_def get_rollout_status_def try_except_def
        choice_def randint_def json_header_def)

lemma rollout_status_fault:
  assumes "\<not> (\<exists>kvs. parsed = Inr (JObj kvs) \<and> phase_draw d < 3)"
  shows "\<exists>m. handle_rollout_status builtin_str d parsed = error_response (Fault m)"
proof (cases parsed)
  case (Inl e)
  then show ?thesis
    by (cases e) (auto simp: handle_rollout_status_def try_except_def)
next
  case (Inr data)
  show ?thesis
  proof (cases data)
    case (JObj kvs)
    with Inr assms have "\<not> phase_draw d < 3" by simp
    then show ?thesis
      by (auto simp: Inr JObj handle_rollout_status_def get_rollout_status_def
            try_except_def choice_def)
  qed (auto simp: Inr handle_rollout_status_def try_except_def)
qed

lemma error_response_fields:
  "status_code (error_response (Fault m)) = 500"
  "sent_headers (error_response (Fault m)) = [(''Content-type'', ''application/json'')]"
  "body_field (error_response (Fault m)) ''status'' = Some (JStr ''error'')"
  by (simp_all add: error_response_def body_field_def json_header_def)

lemma phase_in_range:
  assumes "k < 3"
  shows "[''Progressing'', ''Completed'', ''Paused''] ! k
           \<in> {''Progressing'', ''Paused'', ''Completed''}"
proof -
  from assms have "k = 0 \<or> k = 1 \<or> k = 2" by arith
  then show ?thesis by auto
qed

lemma phase_injective:
  assumes "j < 3" and "k < 3"
    and "[''Progressing'', ''Completed'', ''Paused''] ! j
           = [''Progressing'', ''Completed'', ''Paused''] ! k"
  shows "j = k"
proof -
  have "distinct [''Progressing'', ''Completed'', ''Paused'']" by simp
  then show ?thesis
    using assms by (simp add: nth_eq_iff_index_eq)
qed

text \<open>
  C3. With draws in the generator's ranges, \<open>/rollout-status\<close> answers any JSON object
  with 200 and a record whose \<^verbatim>\<open>rolloutId\<close> is the requested one, \<^verbatim>\<open>totalSteps\<close> is
  3, \<^verbatim>\<open>totalDevices\<close> is 10, \<^verbatim>\<open>phase\<close> is one of \<^verbatim>\<open>Progressing\<close>, \<^verbatim>\<open>Paused\<close>,
  \<^verbatim>\<open>Completed\<close>, \<^verbatim>\<open>currentStep\<close> is an integer from 1 to 3 and \<^verbatim>\<open>completedDevices\<close>
  an integer from 1 to 10. No state precedes the request: the controller keeps none.
\<close>

theorem rollout_status_record_shape:
  assumes "valid_draws d"
  shows "status_code (handle_rollout_status builtin_str d (Inr (JObj kvs))) = 200 \<and>
         body_field (handle_rollout_status builtin_str d (Inr (JObj kvs))) ''rolloutId''
           = Some (dict_get kvs ''rolloutId'' (JStr ''unknown'')) \<and>
         body_field (handle_rollout_status builtin_str d (Inr (JObj kvs))) ''totalSteps''
           = Some (JInt 3) \<and>
         body_field (handle_rollout_status builtin_str d (Inr (JObj kvs))) ''totalDevices''
           = Some (JInt 10) \<and>
         body_field (handle_rollout_status builtin_str d (Inr (JObj kvs))) ''phase''
           \<in> {Some (JStr ''Progressing''), Some (JStr ''Paused''), Some (JStr ''Completed'')} \<and>
         body_field (handle_rollout_status builtin_str d (Inr (JObj kvs))) ''currentStep''
           \<in> (\<lambda>i. Some (JInt i)) ` {1..3} \<and>
         body_field (handle_rollout_status builtin_str d (Inr (JObj kvs))) ''completedDevices''
           \<in> (\<lambda>i. Some (JInt i)) ` {1..10}"
proof -
  from assms have p: "phase_draw d < 3" and s: "step_draw d < 3" and c: "devices_draw d < 10"
    by (simp_all add: valid_draws_def)
  note r = rollout_status_ok [OF p, of builtin_str kvs]
  show ?thesis
    using phase_in_range [OF p] s c
    by (simp add: r body_field_def)
qed

theorem rollout_status_record_shape_witness:
  "valid_draws \<lparr>phase_draw = 2, step_draw = 1, devices_draw = 6\<rparr> \<and>
   status_code (handle_rollout_status (\<lambda>v. []) \<lparr>phase_draw = 2, step_draw = 1, devices_draw = 6\<rparr>
      (Inr (JObj [(''rolloutId'', JStr ''r-1'')]))) = 200 \<and>
   body_field (handle_rollout_status (\<lambda>v. []) \<lparr>phase_draw = 2, step_draw = 1, devices_draw = 6\<rparr>
      (Inr (JObj [(''rolloutId'', JStr ''r-1'')]))) ''rolloutId'' = Some (JStr ''r-1'') \<and>
   body_field (handle_rollout_status (\<lambda>v. []) \<lparr>phase_draw = 2, step_draw = 1, devices_draw = 6\<rparr>
      (Inr (JObj [(''rolloutId'', JStr ''r-1'')]))) ''totalSteps'' = Some (JInt 3) \<and>
   body_field (handle_rollout_status (\<lambda>v. []) \<lparr>phase_draw = 2, step_draw = 1, devices_draw = 6\<rparr>
      (Inr (JObj [(''rolloutId'', JStr ''r-1'')]))) ''totalDevices'' = Some (JInt 10)"
proof -
  have h: "valid_draws \<lparr>phase_draw = 2, step_draw = 1, devices_draw = 6\<rparr>"
    by (simp add: valid_draws_def)
  show ?thesis
    using h rollout_status_record_shape [OF h, of "\<lambda>v. []" "[(''rolloutId'', JStr ''r-1'')]"]
    by (simp add: dict_get_def)
qed

text \<open>
  C9. Every 200 answer of \<open>/rollout-status\<close> comes from a JSON object body and carries,
  next to the record's fields, the requested \<^verbatim>\<open>rolloutId\<close> (\<^verbatim>\<open>unknown\<close> when the
  body has none) and a \<^verbatim>\<open>message\<close> equal to \<^verbatim>\<open>Rollout {rolloutId} is progressing\<close>
  for that requested id, whatever phase was drawn.
\<close>

theorem rollout_status_message:
  assumes "status_code (handle_rollout_status builtin_str d parsed) = 200"
  shows "case parsed of
           Inr (JObj kvs) \<Rightarrow>
             body_field (handle_rollout_status builtin_str d parsed) ''rolloutId'' =
               Some (dict_get kvs ''rolloutId'' (JStr ''unknown'')) \<and>
             body_field (handle_rollout_status builtin_str d parsed) ''message'' =
               Some (JStr (''Rollout ''
                 @ fmt builtin_str (dict_get kvs ''rolloutId'' (JStr ''unknown''))
                 @ '' is progressing'')) \<and>
             (\<forall>requested. map_of kvs ''rolloutId'' = Some (JStr requested) \<longrightarrow>
                body_field (handle_rollout_status builtin_str d parsed) ''message'' =
                  Some (JStr (''Rollout '' @ requested @ '' is progressing'')))
         | _ \<Rightarrow> False"
proof (cases "\<exists>kvs. parsed = Inr (JObj kvs) \<and> phase_draw d < 3")
  case True
  then obtain kvs where p: "parsed = Inr (JObj kvs)" and k: "phase_draw d < 3" by blast
  show ?thesis
    by (simp add: p rollout_status_ok [OF k] body_field_def fmt_def dict_get_def)
next
  case False
  from rollout_status_fault [OF False, of builtin_str] assms show ?thesis
    by (auto simp: error_response_fields)
qed

theorem rollout_status_message_witness:
  "status_code (handle_rollout_status (\<lambda>v. []) \<lparr>phase_draw = 2, step_draw = 2, devices_draw = 9\<rparr>
      (Inr (JObj [(''rolloutId'', JStr ''r-2'')]))) = 200 \<and>
   body_field (handle_rollout_status (\<lambda>v. []) \<lparr>phase_draw = 2, step_draw = 2, devices_draw = 9\<rparr>
      (Inr (JObj [(''rolloutId'', JStr ''r-2'')]))) ''phase'' = Some (JStr ''Paused'') \<and>
   body_field (handle_rollout_status (\<lambda>v. []) \<lparr>phase_draw = 2, step_draw = 2, devices_draw = 9\<rparr>
      (Inr (JObj [(''rolloutId'', JStr ''r-2'')]))) ''rolloutId'' = Some (JStr ''r-2'') \<and>
   body_field (handle_rollout_status (\<lambda>v. []) \<lparr>phase_draw = 2, step_draw = 2, devices_draw = 9\<rparr>
      (Inr (JObj [(''rolloutId'', JStr ''r-2'')]))) ''message''
     = Some (JStr ''Rollout r-2 is progressing'')"
proof -
  have ph: "body_field (handle_rollout_status (\<lambda>v. [])
      \<lparr>phase_draw = 2, step_draw = 2, devices_draw = 9\<rparr>
      (Inr (JObj [(''rolloutId'', JStr ''r-2'')]))) ''phase'' = Some (JStr ''Paused'')"
    by (simp add: handle_rollout_status_def get_rollout_status_def try_except_def
          choice_def body_field_def)
  have h: "status_code (handle_rollout_status (\<lambda>v. [])
      \<lparr>phase_draw = 2, step_draw = 2, devices_draw = 9\<rparr>
      (Inr (JObj [(''rolloutId'', JStr ''r-2'')]))) = 200"
    by (simp add: handle_rollout_status_def get_rollout_status_def try_except_def choice_def)
  show ?thesis
    using h ph rollout_status_message [OF h]
    by (simp add: dict_get_def fmt_def)
qed

text \<open>
  C2, as stated, fails: two calls for the same \<^verbatim>\<open>rolloutId\<close>, with nothing recorded
  in between, return different records when the generator's draws differ.
\<close>

theorem rollout_status_not_idempotent:
  "handle_rollout_status (\<lambda>v. []) \<lparr>phase_draw = 0, step_draw = 0, devices_draw = 0\<rparr>
      (Inr (JObj [(''rolloutId'', JStr ''r-1'')])) \<noteq>
   handle_rollout_status (\<lambda>v. []) \<lparr>phase_draw = 2, step_draw = 2, devices_draw = 9\<rparr>
      (Inr (JObj [(''rolloutId'', JStr ''r-1'')]))"
  by (simp add: handle_rollout_status_def get_rollout_status_def try_except_def
        choice_def randint_def)

text \<open>
  C2, amended. Two calls for the same \<^verbatim>\<open>rolloutId\<close> return records that agree on
  \<^verbatim>\<open>rolloutId\<close>, \<^verbatim>\<open>totalSteps\<close>, \<^verbatim>\<open>totalDevices\<close> and \<^verbatim>\<open>message\<close>; \<^verbatim>\<open>phase\<close>,
  \<^verbatim>\<open>currentStep\<close> and \<^verbatim>\<open>completedDevices\<close> are drawn at each call, and the two
  answers are identical exactly when the draws are.
\<close>

theorem rollout_status_repeatable_fields:
  assumes "phase_draw d1 < 3" and "phase_draw d2 < 3"
  shows "(\<forall>key \<in> {''rolloutId'', ''totalSteps'', ''totalDevices'', ''message''}.
            body_field (handle_rollout_status builtin_str d1 (Inr (JObj kvs))) key =
            body_field (handle_rollout_status builtin_str d2 (Inr (JObj kvs))) key) \<and>
         (handle_rollout_status builtin_str d1 (Inr (JObj kvs)) =
            handle_rollout_status builtin_str d2 (Inr (JObj kvs)) \<longleftrightarrow> d1 = d2)"
proof -
  note r1 = rollout_status_ok [OF assms(1), of builtin_str kvs]
  note r2 = rollout_status_ok [OF assms(2), of builtin_str kvs]
  have fields: "\<forall>key \<in> {''rolloutId'', ''totalSteps'', ''totalDevices'', ''message''}.
            body_field (handle_rollout_status builtin_str d1 (Inr (JObj kvs))) key =
            body_field (handle_rollout_status builtin_str d2 (Inr (JObj kvs))) key"
    by (simp add: r1 r2 body_field_def)
  have same: "d1 = d2" if eq: "handle_rollout_status builtin_str d1 (Inr (JObj kvs)) =
            handle_rollout_status builtin_str d2 (Inr (JObj kvs))"
  proof -
    from eq have ph: "[''Progressing'', ''Completed'', ''Paused''] ! phase_draw d1 =
        [''Progressing'', ''Completed'', ''Paused''] ! phase_draw d2"
      and st: "step_draw d1 = step_draw d2" and dv: "devices_draw d1 = devices_draw d2"
      unfolding r1 r2 by simp_all
    from phase_injective [OF assms ph] st dv show ?thesis by simp
  qed
  show ?thesis using fields same by blast
qed

theorem rollout_status_repeatable_fields_witness:
  "phase_draw \<lparr>phase_draw = 0, step_draw = 0, devices_draw = 0\<rparr> < 3 \<and>
   phase_draw \<lparr>phase_draw = 2, step_draw = 2, devices_draw = 9\<rparr> < 3 \<and>
   body_field (handle_rollout_status (\<lambda>v. []) \<lparr>phase_draw = 0, step_draw = 0, devices_draw = 0\<rparr>
      (Inr (JObj [(''rolloutId'', JStr ''r-1'')]))) ''message'' =
   body_field (handle_rollout_status (\<lambda>v. []) \<lparr>phase_draw = 2, step_draw = 2, devices_draw = 9\<rparr>
      (Inr (JObj [(''rolloutId'', JStr ''r-1'')]))) ''message'' \<and>
   body_field (handle_rollout_status (\<lambda>v. []) \<lparr>phase_draw = 0, step_draw = 0, devices_draw = 0\<rparr>
      (Inr (JObj [(''rolloutId'', JStr ''r-1'')]))) ''rolloutId'' =
   body_field (handle_rollout_status (\<lambda>v. []) \<lparr>phase_draw = 2, step_draw = 2, devices_draw = 9\<rparr>
      (Inr (JObj [(''rolloutId'', JStr ''r-1'')]))) ''rolloutId''"
proof -
  have a: "phase_draw \<lparr>phase_draw = 0, step_draw = 0, devices_draw = 0\<rparr> < 3" by simp
  have b: "phase_draw \<lparr>phase_draw = 2, step_draw = 2, devices_draw = 9\<rparr> < 3" by simp
  show ?thesis
    using a b
      rollout_status_repeatable_fields [OF a b, of "\<lambda>v. []" "[(''rolloutId'', JStr ''r-1'')]"]
    by simp
qed

section \<open>What every handler sends\<close>

lemma validation_status:
  "body_field (handle_validation u parsed) ''status'' \<in> status_values \<and>
   sent_headers (handle_validation u parsed) = [(''Content-type'', ''application/json'')]"
proof (cases parsed)
  case (Inl e)
  then show ?thesis
    by (cases e)
      (simp add: handle_validation_def try_except_def error_response_fields status_values_def)
next
  case (Inr data)
  show ?thesis
  proof (cases data)
    case (JObj kvs)
    show ?thesis
      by (auto simp: Inr JObj handle_validation_def try_except_def error_response_def
            status_values_def body_field_def json_header_def split: sum.splits fault.splits)
  qed (simp_all add: Inr handle_validation_def try_except_def error_response_fields
         status_values_def)
qed

lemma send_config_status:
  "body_field (handle_send_config builtin_str u parsed) ''status'' \<in> status_values \<and>
   sent_headers (handle_send_config builtin_str u parsed)
     = [(''Content-type'', ''application/json'')]"
proof (cases parsed)
  case (Inl e)
  then show ?thesis
    by (cases e)
      (simp add: handle_send_config_def try_except_def error_response_fields status_values_def)
next
  case (Inr data)
  show ?thesis
  proof (cases data)
    case (JObj kvs)
    show ?thesis
      by (cases "dict_get kvs ''config'' (JObj [])")
        (simp_all add: Inr JObj handle_send_config_def try_except_def error_response_def
            status_values_def body_field_def json_header_def)
  qed (simp_all add: Inr handle_send_config_def try_except_def error_response_fields
         status_values_def)
qed

lemma rollout_status_status:
  "(status_code (handle_rollout_status builtin_str d parsed) = 500 \<and>
      body_field (handle_rollout_status builtin_str d parsed) ''status'' = Some (JStr ''error'') \<or>
    status_code (handle_rollout_status builtin_str d parsed) = 200 \<and>
      body_field (handle_rollout_status builtin_str d parsed) ''status'' = None) \<and>
   sent_headers (handle_rollout_status builtin_str d parsed)
     = [(''Content-type'', ''application/json'')]"
proof (cases "\<exists>kvs. parsed = Inr (JObj kvs) \<and> phase_draw d < 3")
  case True
  then obtain kvs where p: "parsed = Inr (JObj kvs)" and k: "phase_draw d < 3" by blast
  show ?thesis
    by (simp add: p rollout_status_ok [OF k] body_field_def)
next
  case False
  from rollout_status_fault [OF False, of builtin_str] show ?thesis
    by (auto simp: error_response_fields)
qed

text \<open>
  C6, as stated, fails: the 200 answer of \<open>/rollout-status\<close> is the rollout record, and
  the record has no \<^verbatim>\<open>status\<close> field.
\<close>

theorem rollout_status_body_has_no_status:
  "body_field (handle_rollout_status (\<lambda>v. []) \<lparr>phase_draw = 0, step_draw = 0, devices_draw = 0\<rparr>
      (Inr (JObj [(''rolloutId'', JStr ''r-1'')]))) ''status'' = None"
  by (simp add: handle_rollout_status_def get_rollout_status_def try_except_def
        choice_def randint_def body_field_def)

lemma error_response_shape:
  "error_response (Fault m) =
     \<lparr>status_code = 500, sent_headers = [(''Content-type'', ''application/json'')],
      body = Some (JObj [(''status'', JStr ''error''), (''message'', JStr m)])\<rparr>"
  by (simp add: error_response_def json_header_def)

lemma validation_answer:
  "case validate_config u data of
     Inl e \<Rightarrow> handle_validation u (Inr data) = error_response e
   | Inr ok \<Rightarrow> outcome (handle_validation u (Inr data)) =
       (if ok then (200, Some (JStr ''success'')) else (400, Some (JStr ''failure'')))"
proof (cases data)
  case (JObj kvs)
  show ?thesis
    by (simp add: JObj handle_validation_def try_except_def outcome_def body_field_def
          split: sum.splits)
qed (simp_all add: handle_validation_def validate_config_def try_except_def)

lemma send_config_answer:
  "case get data ''config'' (JObj []) of
     Inl e \<Rightarrow> handle_send_config builtin_str u (Inr data) = error_response e
   | Inr config_data \<Rightarrow>
       (case get config_data ''name'' (JStr ''unknown'') of
          Inl e \<Rightarrow> handle_send_config builtin_str u (Inr data) = error_response e
        | Inr config_name \<Rightarrow> outcome (handle_send_config builtin_str u (Inr data)) =
            (if u < lit_0_95 then (200, Some (JStr ''success''))
             else (500, Some (JStr ''failure''))))"
proof (cases data)
  case (JObj kvs)
  show ?thesis
    by (cases "dict_get kvs ''config'' (JObj [])")
      (simp_all add: JObj handle_send_config_def try_except_def outcome_def body_field_def
          send_config_to_device_def)
qed (simp_all add: handle_send_config_def try_except_def)

lemma rollout_status_answer:
  "case get data ''rolloutId'' (JStr ''unknown'') of
     Inl e \<Rightarrow> handle_rollout_status builtin_str d (Inr data) = error_response e
   | Inr rollout_id \<Rightarrow>
       (case get_rollout_status builtin_str d rollout_id of
          Inl e \<Rightarrow> handle_rollout_status builtin_str d (Inr data) = error_response e
        | Inr record \<Rightarrow>
            handle_rollout_status builtin_str d (Inr data) =
              \<lparr>status_code = 200, sent_headers = [(''Content-type'', ''application/json'')],
               body = Some record\<rparr> \<and>
            body_field (handle_rollout_status builtin_str d (Inr data)) ''status'' = None)"
proof (cases data)
  case (JObj kvs)
  show ?thesis
    by (auto simp: JObj handle_rollout_status_def get_rollout_status_def try_except_def
          body_field_def json_header_def choice_def split: sum.splits)
qed (simp_all add: handle_rollout_status_def try_except_def)

text \<open>
  C6, amended. Every fault raised inside a handler is answered with 500 and the body
  \<^verbatim>\<open>{"status": "error", "message": str(e)}\<close>: a fault of reading or decoding the body,
  a \<^verbatim>\<open>.get\<close> on a value that is not a dict, a \<^verbatim>\<open>len\<close> of a value that has none.
  Without a fault \<open>/validate\<close> answers 200 with status \<^verbatim>\<open>success\<close> or 400 with status
  \<^verbatim>\<open>failure\<close>, and \<open>/send-config\<close> 200 with \<^verbatim>\<open>success\<close> or 500 with \<^verbatim>\<open>failure\<close>, so
  the bodies of both always carry one of the three status values. Without a fault
  \<open>/rollout-status\<close> answers 200 with the record built by \<open>get_rollout_status\<close> as its
  body, and that body has no \<^verbatim>\<open>status\<close> field.
\<close>

theorem handlers_always_answer:
  "(body_field (handle_validation u parsed) ''status'' \<in> status_values \<and>
    body_field (handle_send_config builtin_str u parsed) ''status'' \<in> status_values) \<and>
   (error_response (Fault m) =
      \<lparr>status_code = 500, sent_headers = [(''Content-type'', ''application/json'')],
       body = Some (JObj [(''status'', JStr ''error''), (''message'', JStr m)])\<rparr> \<and>
    handle_validation u (Inl (Fault m)) = error_response (Fault m) \<and>
    handle_send_config builtin_str u (Inl (Fault m)) = error_response (Fault m) \<and>
    handle_rollout_status builtin_str d (Inl (Fault m)) = error_response (Fault m)) \<and>
   (case validate_config u data of
      Inl e \<Rightarrow> handle_validation u (Inr data) = error_response e
    | Inr ok \<Rightarrow> outcome (handle_validation u (Inr data)) =
        (if ok then (200, Some (JStr ''success'')) else (400, Some (JStr ''failure'')))) \<and>
   (case get data ''config'' (JObj []) of
      Inl e \<Rightarrow> handle_send_config builtin_str u (Inr data) = error_response e
    | Inr config_data \<Rightarrow>
        (case get config_data ''name'' (JStr ''unknown'') of
           Inl e \<Rightarrow> handle_send_config builtin_str u (Inr data) = error_response e
         | Inr config_name \<Rightarrow> outcome (handle_send_config builtin_str u (Inr data)) =
             (if u < lit_0_95 then (200, Some (JStr ''success''))
              else (500, Some (JStr ''failure''))))) \<and>
   (case get data ''rolloutId'' (JStr ''unknown'') of
      Inl e \<Rightarrow> handle_rollout_status builtin_str d (Inr data) = error_response e
    | Inr rollout_id \<Rightarrow>
        (case get_rollout_status builtin_str d rollout_id of
           Inl e \<Rightarrow> handle_rollout_status builtin_str d (Inr data) = error_response e
         | Inr record \<Rightarrow>
             handle_rollout_status builtin_str d (Inr data) =
               \<lparr>status_code = 200, sent_headers = [(''Content-type'', ''application/json'')],
                body = Some record\<rparr> \<and>
             body_field (handle_rollout_status builtin_str d (Inr data)) ''status'' = None))"
proof -
  have a: "body_field (handle_validation u parsed) ''status'' \<in> status_values \<and>
    body_field (handle_send_config builtin_str u parsed) ''status'' \<in> status_values"
    using validation_status [of u parsed] send_config_status [of builtin_str u parsed] by simp
  have b: "handle_validation u (Inl (Fault m)) = error_response (Fault m) \<and>
    handle_send_config builtin_str u (Inl (Fault m)) = error_response (Fault m) \<and>
    handle_rollout_status builtin_str d (Inl (Fault m)) = error_response (Fault m)"
    by (simp add: handle_validation_def handle_send_config_def handle_rollout_status_def
          try_except_def)
  show ?thesis
    by (intro conjI a [THEN conjunct1] a [THEN conjunct2] error_response_shape
          b [THEN conjunct1] b [THEN conjunct2, THEN conjunct1]
          b [THEN conjunct2, THEN conjunct2]
          validation_answer send_config_answer rollout_status_answer)
qed

theorem handlers_always_answer_witness:
  "handle_rollout_status (\<lambda>v. []) \<lparr>phase_draw = 0, step_draw = 0, devices_draw = 0\<rparr>
      (Inl (Fault ''Expecting value: line 1 column 1 (char 0)'')) =
     \<lparr>status_code = 500, sent_headers = [(''Content-type'', ''application/json'')],
      body = Some (JObj [(''status'', JStr ''error''),
                         (''message'', JStr ''Expecting value: line 1 column 1 (char 0)'')])\<rparr> \<and>
   handle_rollout_status (\<lambda>v. []) \<lparr>phase_draw = 0, step_draw = 0, devices_draw = 0\<rparr>
      (Inr (JObj [(''rolloutId'', JStr ''r-1'')])) =
     \<lparr>status_code = 200, sent_headers = [(''Content-type'', ''application/json'')],
      body = Some (JObj [(''rolloutId'', JStr ''r-1''),
        (''phase'', JStr ''Progressing''),
        (''currentStep'', JInt 1),
        (''totalSteps'', JInt 3),
        (''completedDevices'', JInt 1),
        (''totalDevices'', JInt 10),
        (''message'', JStr ''Rollout r-1 is progressing'')])\<rparr>"
proof -
  have g: "get (JObj [(''rolloutId'', JStr ''r-1'')]) ''rolloutId'' (JStr ''unknown'')
             = Inr (JStr ''r-1'')"
    by (simp add: dict_get_def)
  have r: "get_rollout_status (\<lambda>v. []) \<lparr>phase_draw = 0, step_draw = 0, devices_draw = 0\<rparr>
             (JStr ''r-1'') =
           Inr (JObj [(''rolloutId'', JStr ''r-1''),
             (''phase'', JStr ''Progressing''),
             (''currentStep'', JInt 1),
             (''totalSteps'', JInt 3),
             (''completedDevices'', JInt 1),
             (''totalDevices'', JInt 10),
             (''message'', JStr ''Rollout r-1 is progressing'')])"
    by (simp add: get_rollout_status_def choice_def randint_def fmt_def)
  note w = handlers_always_answer [of 0 "Inr (JObj [])" "\<lambda>v. []"
      "''Expecting value: line 1 column 1 (char 0)''"
      "\<lparr>phase_draw = 0, step_draw = 0, devices_draw = 0\<rparr>"
      "JObj [(''rolloutId'', JStr ''r-1'')]"]
  note b = w [THEN conjunct2, THEN conjunct1]
  note b0 = b [THEN conjunct1]
  note b3 = b [THEN conjunct2, THEN conjunct2, THEN conjunct2]
  note e = w [THEN conjunct2, THEN conjunct2, THEN conjunct2, THEN conjunct2]
  from e have ok: "handle_rollout_status (\<lambda>v. [])
      \<lparr>phase_draw = 0, step_draw = 0, devices_draw = 0\<rparr>
      (Inr (JObj [(''rolloutId'', JStr ''r-1'')])) =
     \<lparr>status_code = 200, sent_headers = [(''Content-type'', ''application/json'')],
      body = Some (JObj [(''rolloutId'', JStr ''r-1''),
        (''phase'', JStr ''Progressing''),
        (''currentStep'', JInt 1),
        (''totalSteps'', JInt 3),
        (''completedDevices'', JInt 1),
        (''totalDevices'', JInt 10),
        (''message'', JStr ''Rollout r-1 is progressing'')])\<rparr>"
    unfolding g r sum.case by (rule conjunct1)
  show ?thesis
    by (intro conjI) (rule trans [OF b3 b0] ok)+
qed

section \<open>Routing\<close>

lemma do_GET_do_POST_routing:
  "(path \<notin> {''/health'', ''/metrics''} \<longrightarrow>
      do_GET m path = \<lparr>status_code = 404, sent_headers = [], body = None\<rparr>) \<and>
   (path \<notin> {''/validate'', ''/send-config'', ''/rollout-status''} \<longrightarrow>
      do_POST builtin_str u d path parsed
        = \<lparr>status_code = 404, sent_headers = [], body = None\<rparr>) \<and>
   (path \<in> {''/health'', ''/metrics''} \<longrightarrow>
      sent_headers (do_GET m path) = [(''Content-type'', ''application/json'')]) \<and>
   (path \<in> {''/validate'', ''/send-config'', ''/rollout-status''} \<longrightarrow>
      sent_headers (do_POST builtin_str u d path parsed)
        = [(''Content-type'', ''application/json'')])"
proof -
  have g: "path \<notin> {''/health'', ''/metrics''} \<longrightarrow>
      do_GET m path = \<lparr>status_code = 404, sent_headers = [], body = None\<rparr>"
    by (simp add: do_GET_def not_found_def)
  have p: "path \<notin> {''/validate'', ''/send-config'', ''/rollout-status''} \<longrightarrow>
      do_POST builtin_str u d path parsed
        = \<lparr>status_code = 404, sent_headers = [], body = None\<rparr>"
    by (simp add: do_POST_def not_found_def)
  have gh: "path \<in> {''/health'', ''/metrics''} \<longrightarrow>
      sent_headers (do_GET m path) = [(''Content-type'', ''application/json'')]"
    by (auto simp: do_GET_def json_header_def)
  have ph: "path \<in> {''/validate'', ''/send-config'', ''/rollout-status''} \<longrightarrow>
      sent_headers (do_POST builtin_str u d path parsed)
        = [(''Content-type'', ''application/json'')]"
    using validation_status [of u parsed] send_config_status [of builtin_str u parsed]
      rollout_status_status [of builtin_str d parsed]
    by (auto simp: do_POST_def)
  show ?thesis using g p gh ph by blast
qed

text \<open>
  C8, as stated, fails: a request with a method other than GET and POST is not answered
  with 404 and an empty body. The controller has no handler for it, and the base class
  answers a PUT to an unknown path with 501 and an HTML page.
\<close>

theorem unsupported_method_is_not_404:
  "handle_one_request ''PUT''
     \<lparr>cpu_usage = Finite 42, memory_usage = Finite 50, response_time = Finite 250,
      error_rate = Finite 1, throughput = Finite 3000, active_rollouts = 4,
      devices_configured = 70\<rparr>
     (\<lambda>v. []) 0 \<lparr>phase_draw = 0, step_draw = 0, devices_draw = 0\<rparr>
     ''/unknown-path'' (Inr (JObj [])) = Error_page 501 True"
  by (simp add: handle_one_request_def)

text \<open>
  C8, amended. A GET whose path is neither \<^verbatim>\<open>/health\<close> nor \<^verbatim>\<open>/metrics\<close>, and a POST
  whose path is none of \<^verbatim>\<open>/validate\<close>, \<^verbatim>\<open>/send-config\<close>, \<^verbatim>\<open>/rollout-status\<close>, is
  answered with 404, no header and no body. Every answer on one of the five endpoints
  carries the header \<^verbatim>\<open>Content-type: application/json\<close>. A request with any other
  method is answered, whatever its path, with 501 and an HTML page (no page for HEAD).
\<close>

theorem routing_by_method:
  "(command = ''GET'' \<and> path \<notin> {''/health'', ''/metrics''} \<or>
    command = ''POST'' \<and> path \<notin> {''/validate'', ''/send-config'', ''/rollout-status''} \<longrightarrow>
      handle_one_request command m builtin_str u d path parsed
        = Served \<lparr>status_code = 404, sent_headers = [], body = None\<rparr>) \<and>
   (command = ''GET'' \<and> path \<in> {''/health'', ''/metrics''} \<or>
    command = ''POST'' \<and> path \<in> {''/validate'', ''/send-config'', ''/rollout-status''} \<longrightarrow>
      (case handle_one_request command m builtin_str u d path parsed of
         Served r \<Rightarrow> sent_headers r = [(''Content-type'', ''application/json'')]
       | Error_page c page \<Rightarrow> False)) \<and>
   (command \<noteq> ''GET'' \<and> command \<noteq> ''POST'' \<longrightarrow>
      handle_one_request command m builtin_str u d path parsed
        = Error_page 501 (command \<noteq> ''HEAD''))"
proof -
  note r = do_GET_do_POST_routing [of path m builtin_str u d parsed]
  have p: "''POST'' \<noteq> ''GET''" by simp
  show ?thesis
    using r p by (auto simp: handle_one_request_def)
qed

theorem routing_by_method_witness:
  "handle_one_request ''GET''
     \<lparr>cpu_usage = Finite 42, memory_usage = Finite 50, response_time = Finite 250,
      error_rate = Finite 1, throughput = Finite 3000, active_rollouts = 4,
      devices_configured = 70\<rparr>
     (\<lambda>v. []) 0 \<lparr>phase_draw = 0, step_draw = 0, devices_draw = 0\<rparr>
     ''/unknown-path'' (Inr (JObj []))
     = Served \<lparr>status_code = 404, sent_headers = [], body = None\<rparr> \<and>
   handle_one_request ''GET''
     \<lparr>cpu_usage = Finite 42, memory_usage = Finite 50, response_time = Finite 250,
      error_rate = Finite 1, throughput = Finite 3000, active_rollouts = 4,
      devices_configured = 70\<rparr>
     (\<lambda>v. []) 0 \<lparr>phase_draw = 0, step_draw = 0, devices_draw = 0\<rparr>
     ''/validate'' (Inr (JObj []))
     = Served \<lparr>status_code = 404, sent_headers = [], body = None\<rparr> \<and>
   (case handle_one_request ''POST''
       \<lparr>cpu_usage = Finite 42, memory_usage = Finite 50, response_time = Finite 250,
      error_rate = Finite 1, throughput = Finite 3000, active_rollouts = 4,
      devices_configured = 70\<rparr>
       (\<lambda>v. []) 0 \<lparr>phase_draw = 0, step_draw = 0, devices_draw = 0\<rparr>
       ''/validate'' (Inr (JObj [])) of
      Served r \<Rightarrow> sent_headers r = [(''Content-type'', ''application/json'')]
    | Error_page c page \<Rightarrow> False) \<and>
   handle_one_request ''DELETE''
     \<lparr>cpu_usage = Finite 42, memory_usage = Finite 50, response_time = Finite 250,
      error_rate = Finite 1, throughput = Finite 3000, active_rollouts = 4,
      devices_configured = 70\<rparr>
     (\<lambda>v. []) 0 \<lparr>phase_draw = 0, step_draw = 0, devices_draw = 0\<rparr>
     ''/health'' (Inr (JObj []))
     = Error_page 501 True"
proof -
  note g1 = routing_by_method [of "''GET''" "''/unknown-path''"
      "\<lparr>cpu_usage = Finite 42, memory_usage = Finite 50, response_time = Finite 250,
        error_rate = Finite 1, throughput = Finite 3000, active_rollouts = 4,
        devices_configured = 70\<rparr>"
      "\<lambda>v. []" 0 "\<lparr>phase_draw = 0, step_draw = 0, devices_draw = 0\<rparr>" "Inr (JObj [])"]
  note g2 = routing_by_method [of "''GET''" "''/validate''"
      "\<lparr>cpu_usage = Finite 42, memory_usage = Finite 50, response_time = Finite 250,
        error_rate = Finite 1, throughput = Finite 3000, active_rollouts = 4,
        devices_configured = 70\<rparr>"
      "\<lambda>v. []" 0 "\<lparr>phase_draw = 0, step_draw = 0, devices_draw = 0\<rparr>" "Inr (JObj [])"]
  note g3 = routing_by_method [of "''DELETE''" "''/health''"
      "\<lparr>cpu_usage = Finite 42, memory_usage = Finite 50, response_time = Finite 250,
        error_rate = Finite 1, throughput = Finite 3000, active_rollouts = 4,
        devices_configured = 70\<rparr>"
      "\<lambda>v. []" 0 "\<lparr>phase_draw = 0, step_draw = 0, devices_draw = 0\<rparr>" "Inr (JObj [])"]
  note g4 = routing_by_method [of "''POST''" "''/validate''"
      "\<lparr>cpu_usage = Finite 42, memory_usage = Finite 50, response_time = Finite 250,
        error_rate = Finite 1, throughput = Finite 3000, active_rollouts = 4,
        devices_configured = 70\<rparr>"
      "\<lambda>v. []" 0 "\<lparr>phase_draw = 0, step_draw = 0, devices_draw = 0\<rparr>" "Inr (JObj [])"]
  have f: "''POST'' = ''GET'' \<and> ''/validate'' \<in> {''/health'', ''/metrics''} \<or>
    ''POST'' = ''POST'' \<and> ''/validate'' \<in> {''/validate'', ''/send-config'', ''/rollout-status''}"
    by simp
  note n4 = g4 [THEN conjunct2, THEN conjunct1, THEN mp, OF f]
  have a: "''/unknown-path'' \<notin> {''/health'', ''/metrics''}" by simp
  have b: "''/validate'' \<notin> {''/health'', ''/metrics''}" by simp
  have c: "''DELETE'' \<noteq> ''GET'' \<and> ''DELETE'' \<noteq> ''POST''" by simp
  have e: "(''DELETE'' \<noteq> ''HEAD'') = True" by simp
  from g1 a have n1: "handle_one_request ''GET''
     \<lparr>cpu_usage = Finite 42, memory_usage = Finite 50, response_time = Finite 250,
      error_rate = Finite 1, throughput = Finite 3000, active_rollouts = 4,
      devices_configured = 70\<rparr>
     (\<lambda>v. []) 0 \<lparr>phase_draw = 0, step_draw = 0, devices_draw = 0\<rparr>
     ''/unknown-path'' (Inr (JObj []))
     = Served \<lparr>status_code = 404, sent_headers = [], body = None\<rparr>"
    by blast
  from g2 b have n2: "handle_one_request ''GET''
     \<lparr>cpu_usage = Finite 42, memory_usage = Finite 50, response_time = Finite 250,
      error_rate = Finite 1, throughput = Finite 3000, active_rollouts = 4,
      devices_configured = 70\<rparr>
     (\<lambda>v. []) 0 \<lparr>phase_draw = 0, step_draw = 0, devices_draw = 0\<rparr>
     ''/validate'' (Inr (JObj []))
     = Served \<lparr>status_code = 404, sent_headers = [], body = None\<rparr>"
    by blast
  from g3 [THEN conjunct2, THEN conjunct2, THEN mp, OF c] have n3: "handle_one_request ''DELETE''
     \<lparr>cpu_usage = Finite 42, memory_usage = Finite 50, response_time = Finite 250,
      error_rate = Finite 1, throughput = Finite 3000, active_rollouts = 4,
      devices_configured = 70\<rparr>
     (\<lambda>v. []) 0 \<lparr>phase_draw = 0, step_draw = 0, devices_draw = 0\<rparr>
     ''/health'' (Inr (JObj []))
     = Error_page 501 True"
    unfolding e .
  show ?thesis
    by (intro conjI) (rule n1 n2 n3 n4)+
qed

end
